theory Spec2Isabelle
  imports Complex_Main
begin

section \<open>JSON values and HTTP responses\<close>

text \<open>
  The values that travel through \<^verbatim>\<open>app.js\<close>: what \<^verbatim>\<open>bodyParser.json()\<close> puts in
  \<^verbatim>\<open>req.body\<close>, what is handed to a model constructor, and what \<^verbatim>\<open>res.json\<close> sends.
  \<open>JUndefined\<close> is JavaScript's \<^verbatim>\<open>undefined\<close>: the value of a property that an
  object does not have. An object is an association list; a parsed JSON object has
  distinct keys, and a key is read with \<open>property\<close>, so the order of the keys is never
  observed. \<open>JNum\<close> is a finite number. \<open>JInfinity neg\<close> is \<^verbatim>\<open>Infinity\<close>, or \<^verbatim>\<open>-Infinity\<close> when
  \<open>neg\<close> holds: what \<^verbatim>\<open>JSON.parse\<close> gives for a number literal beyond the range of a
  double, such as \<^verbatim>\<open>1e400\<close>.
\<close>

datatype json =
    JUndefined
  | JNull
  | JBool bool
  | JNum real
  | JInfinity bool
  | JStr string
  | JArr "json list"
  | JObj "(string \<times> json) list"

text \<open>Property access \<^verbatim>\<open>v.k\<close> for the property names this program uses (none of
  them is a property of a primitive, of an array or of \<^verbatim>\<open>Object.prototype\<close>).\<close>

fun property :: "json \<Rightarrow> string \<Rightarrow> json" where
  "property (JObj kvs) k = (case map_of kvs k of Some v \<Rightarrow> v | None \<Rightarrow> JUndefined)"
| "property _ k = JUndefined"

text \<open>
  A destructuring \<^verbatim>\<open>const { a, ... } = req.body\<close> throws a \<^verbatim>\<open>TypeError\<close> when
  \<^verbatim>\<open>req.body\<close> is \<^verbatim>\<open>undefined\<close> or \<^verbatim>\<open>null\<close>; the message names the first property of
  the pattern. On every other value it binds each name to the property of that name.
\<close>

fun destructure :: "string \<Rightarrow> json \<Rightarrow> string + json" where
  "destructure a JUndefined =
     Inl (''Cannot destructure property '' @ [CHR 0x27] @ a @ [CHR 0x27] @ '' of ''
          @ [CHR 0x27] @ ''req.body'' @ [CHR 0x27] @ '' as it is undefined.'')"
| "destructure a JNull =
     Inl (''Cannot destructure property '' @ [CHR 0x27] @ a @ [CHR 0x27] @ '' of ''
          @ [CHR 0x27] @ ''req.body'' @ [CHR 0x27] @ '' as it is null.'')"
| "destructure a b = Inr b"

text \<open>
  \<^verbatim>\<open>res.json(v)\<close> sends \<^verbatim>\<open>JSON.stringify(v)\<close>: an infinite number is written as
  \<^verbatim>\<open>null\<close>, a property whose value is \<^verbatim>\<open>undefined\<close> is left out, and an \<^verbatim>\<open>undefined\<close>
  element of an array is written as \<^verbatim>\<open>null\<close>. \<open>stringify v\<close> is the value the client reads.
\<close>

fun stringify :: "json \<Rightarrow> json" where
  "stringify (JInfinity neg) = JNull"
| "stringify (JArr xs) = JArr (map (\<lambda>x. if x = JUndefined then JNull else stringify x) xs)"
| "stringify (JObj kvs) =
     JObj (map (\<lambda>kv. (fst kv, stringify (snd kv))) (filter (\<lambda>kv. snd kv \<noteq> JUndefined) kvs))"
| "stringify v = v"

record response =
  status :: nat
  body :: json

section \<open>The storage library as the program sees it\<close>

text \<open>
  \<^verbatim>\<open>app.js\<close> reaches the document store only through Mongoose, an external library.
  The handlers are therefore written over a parameter \<open>M\<close> that holds the library
  operations the source calls. \<open>'db\<close> is the state of the store, \<open>'doc\<close> a Mongoose
  document. An operation that throws, or whose promise rejects, returns \<open>Inl\<close> of the
  error's \<^verbatim>\<open>message\<close>.
\<close>

subsection \<open>Schemas (lines 56 to 120 of the source)\<close>

datatype schema_type =
    StringT
  | NumberT
  | Nested "(string \<times> schema_type) list"
  | DocArray "(string \<times> schema_type) list"

type_synonym schema = "(string \<times> schema_type) list"

definition addressSchema :: schema where
  "addressSchema =
     [(''flat_no'', StringT), (''area'', StringT), (''city'', StringT),
      (''state'', StringT), (''pincode'', StringT)]"

definition orderSchema :: schema where
  "orderSchema =
     [(''name'', StringT), (''email'', StringT), (''phone'', StringT),
      (''address'', Nested addressSchema),
      (''vegetables'', Nested
         [(''brinjalQty'', NumberT), (''tomatoQty'', NumberT), (''carrotQty'', NumberT),
          (''cucumberQty'', NumberT), (''onionQty'', NumberT), (''chilliQty'', NumberT),
          (''spinachQuantity'', NumberT), (''coriander'', NumberT),
          (''Karvepaku'', NumberT), (''pudina'', NumberT)]),
      (''totalCost'', NumberT)]"

definition cartSchema :: schema where
  "cartSchema =
     [(''items'', DocArray
         [(''name'', StringT), (''quantity'', NumberT), (''totalCost'', NumberT)]),
      (''totalCartCost'', NumberT)]"

definition checkoutSchema :: schema where
  "checkoutSchema =
     [(''customer'', Nested
         [(''name'', StringT), (''email'', StringT), (''phone'', StringT),
          (''address'', Nested addressSchema)]),
      (''cart'', DocArray
         [(''name'', StringT), (''quantity'', NumberT), (''totalCost'', NumberT)]),
      (''cartTotal'', NumberT)]"

subsection \<open>Models and the library\<close>

text \<open>
  A model is what \<^verbatim>\<open>mongoose.model(name, schema)\<close> returns:
  \<^item> \<open>new_document obj\<close> is \<^verbatim>\<open>new Model(obj)\<close>;
  \<^item> \<open>save db doc\<close> is \<^verbatim>\<open>await doc.save()\<close>: the saved document or the rejection,
    and the store afterwards;
  \<^item> \<open>findById db id\<close> is \<^verbatim>\<open>await Model.findById(id)\<close>: a query, so it returns no
    store; \<open>Inr None\<close> is JavaScript's \<^verbatim>\<open>null\<close>.
\<close>

record ('db, 'doc) model =
  new_document :: "json \<Rightarrow> string + 'doc"
  save :: "'db \<Rightarrow> 'doc \<Rightarrow> (string + 'doc) \<times> 'db"
  findById :: "'db \<Rightarrow> string \<Rightarrow> string + 'doc option"

text \<open>
  The library: \<open>mongoose_model\<close> is \<^verbatim>\<open>mongoose.model\<close>, \<open>get_id doc\<close> is \<^verbatim>\<open>doc._id\<close> as
  \<^verbatim>\<open>res.json\<close> serialises it (the hexadecimal string of the ObjectId), and
  \<open>toJSON doc\<close> is the document as \<^verbatim>\<open>res.json(doc)\<close> serialises it.
\<close>

record ('db, 'doc) mongoose =
  mongoose_model :: "string \<Rightarrow> schema \<Rightarrow> ('db, 'doc) model"
  get_id :: "'doc \<Rightarrow> string"
  toJSON :: "'doc \<Rightarrow> json"

definition Order :: "('db, 'doc) mongoose \<Rightarrow> ('db, 'doc) model" where
  "Order M = mongoose_model M ''Order'' orderSchema"

definition Cart :: "('db, 'doc) mongoose \<Rightarrow> ('db, 'doc) model" where
  "Cart M = mongoose_model M ''Cart'' cartSchema"

definition Checkout :: "('db, 'doc) mongoose \<Rightarrow> ('db, 'doc) model" where
  "Checkout M = mongoose_model M ''Checkout'' checkoutSchema"

section \<open>Route handlers\<close>

text \<open>
  Each handler takes the library, the store and its input, and returns the store
  afterwards and the response. \<open>error_response\<close> is the \<^verbatim>\<open>catch\<close> branch that all six
  database routes share: \<^verbatim>\<open>res.status(500).json({ error: err.message })\<close>.
\<close>

definition error_response :: "string \<Rightarrow> response" where
  "error_response msg = \<lparr>status = 500, body = JObj [(''error'', JStr msg)]\<rparr>"

definition get_health :: response where
  "get_health =
     \<lparr>status = 200, body = JObj [(''status'', JStr ''OK''), (''service'', JStr ''vegetable-app'')]\<rparr>"

definition post_order :: "('db, 'doc) mongoose \<Rightarrow> 'db \<Rightarrow> json \<Rightarrow> 'db \<times> response" where
  "post_order M db req_body =
     (case destructure ''name'' req_body of
        Inl msg \<Rightarrow> (db, error_response msg)
      | Inr b \<Rightarrow>
          (case new_document (Order M)
                  (JObj [(''name'', property b ''name''), (''email'', property b ''email''),
                         (''phone'', property b ''phone''), (''address'', property b ''address''),
                         (''vegetables'', property b ''vegetables''),
                         (''totalCost'', property b ''totalCost'')]) of
             Inl msg \<Rightarrow> (db, error_response msg)
           | Inr newOrder \<Rightarrow>
               (case save (Order M) db newOrder of
                  (Inl msg, db') \<Rightarrow> (db', error_response msg)
                | (Inr savedOrder, db') \<Rightarrow>
                    (db', \<lparr>status = 201,
                           body = JObj [(''message'', JStr ''Order placed successfully!''),
                                        (''orderId'', JStr (get_id M savedOrder))]\<rparr>))))"

definition get_order :: "('db, 'doc) mongoose \<Rightarrow> 'db \<Rightarrow> string \<Rightarrow> 'db \<times> response" where
  "get_order M db req_id =
     (case findById (Order M) db req_id of
        Inl msg \<Rightarrow> (db, error_response msg)
      | Inr (Some order) \<Rightarrow> (db, \<lparr>status = 200, body = toJSON M order\<rparr>)
      | Inr None \<Rightarrow> (db, \<lparr>status = 404, body = JObj [(''message'', JStr ''Order not found'')]\<rparr>))"

definition post_cart :: "('db, 'doc) mongoose \<Rightarrow> 'db \<Rightarrow> json \<Rightarrow> 'db \<times> response" where
  "post_cart M db req_body =
     (case destructure ''items'' req_body of
        Inl msg \<Rightarrow> (db, error_response msg)
      | Inr b \<Rightarrow>
          (case new_document (Cart M)
                  (JObj [(''items'', property b ''items''),
                         (''totalCartCost'', property b ''totalCartCost'')]) of
             Inl msg \<Rightarrow> (db, error_response msg)
           | Inr newCart \<Rightarrow>
               (case save (Cart M) db newCart of
                  (Inl msg, db') \<Rightarrow> (db', error_response msg)
                | (Inr savedCart, db') \<Rightarrow>
                    (db', \<lparr>status = 201,
                           body = JObj [(''message'', JStr ''Cart data saved successfully!''),
                                        (''cartId'', JStr (get_id M savedCart))]\<rparr>))))"

definition get_cart :: "('db, 'doc) mongoose \<Rightarrow> 'db \<Rightarrow> string \<Rightarrow> 'db \<times> response" where
  "get_cart M db req_id =
     (case findById (Cart M) db req_id of
        Inl msg \<Rightarrow> (db, error_response msg)
      | Inr (Some cart) \<Rightarrow> (db, \<lparr>status = 200, body = toJSON M cart\<rparr>)
      | Inr None \<Rightarrow> (db, \<lparr>status = 404, body = JObj [(''message'', JStr ''Cart not found'')]\<rparr>))"

definition post_checkout :: "('db, 'doc) mongoose \<Rightarrow> 'db \<Rightarrow> json \<Rightarrow> 'db \<times> response" where
  "post_checkout M db req_body =
     (case destructure ''customer'' req_body of
        Inl msg \<Rightarrow> (db, error_response msg)
      | Inr b \<Rightarrow>
          (case new_document (Checkout M)
                  (JObj [(''customer'', property b ''customer''), (''cart'', property b ''cart''),
                         (''cartTotal'', property b ''cartTotal'')]) of
             Inl msg \<Rightarrow> (db, error_response msg)
           | Inr newCheckout \<Rightarrow>
               (case save (Checkout M) db newCheckout of
                  (Inl msg, db') \<Rightarrow> (db', error_response msg)
                | (Inr savedCheckout, db') \<Rightarrow>
                    (db', \<lparr>status = 201,
                           body = JObj [(''message'', JStr ''Checkout successful!''),
                                        (''checkoutId'', JStr (get_id M savedCheckout))]\<rparr>))))"

definition get_checkout :: "('db, 'doc) mongoose \<Rightarrow> 'db \<Rightarrow> string \<Rightarrow> 'db \<times> response" where
  "get_checkout M db req_id =
     (case findById (Checkout M) db req_id of
        Inl msg \<Rightarrow> (db, error_response msg)
      | Inr (Some checkout) \<Rightarrow> (db, \<lparr>status = 200, body = toJSON M checkout\<rparr>)
      | Inr None \<Rightarrow>
          (db, \<lparr>status = 404, body = JObj [(''message'', JStr ''Checkout not found'')]\<rparr>))"

subsection \<open>Routing\<close>

text \<open>The seven routes that \<^verbatim>\<open>app.js\<close> registers, and the dispatch to their handlers.\<close>

datatype entity = OrderE | CartE | CheckoutE

datatype request =
    Health
  | Create entity json
  | GetById entity string

fun handle :: "('db, 'doc) mongoose \<Rightarrow> 'db \<Rightarrow> request \<Rightarrow> 'db \<times> response" where
  "handle M db Health = (db, get_health)"
| "handle M db (Create OrderE b) = post_order M db b"
| "handle M db (GetById OrderE i) = get_order M db i"
| "handle M db (Create CartE b) = post_cart M db b"
| "handle M db (GetById CartE i) = get_cart M db i"
| "handle M db (Create CheckoutE b) = post_checkout M db b"
| "handle M db (GetById CheckoutE i) = get_checkout M db i"

section \<open>Startup: connecting to the store\<close>

text \<open>
  \<^verbatim>\<open>MONGO_URI\<close> is \<^verbatim>\<open>process.env.MONGO_URL || '...'\<close>: the default is taken when the
  variable is unset or empty. \<open>connectToDatabase\<close> is modelled by the events it causes,
  in order. \<open>connect uri\<close> is the outcome of \<^verbatim>\<open>await mongoose.connect(uri, ...)\<close>:
  \<open>None\<close> when the promise resolves, \<open>Some msg\<close> when it rejects with an error of
  message \<open>msg\<close>. The two log lines start with an emoji, written here as its UTF-8
  bytes; \<^verbatim>\<open>console.error\<close> joins its two arguments with a space.
\<close>

definition MONGO_URI :: "(string \<Rightarrow> string option) \<Rightarrow> string" where
  "MONGO_URI process_env =
     (case process_env ''MONGO_URL'' of
        None \<Rightarrow> ''mongodb://vegetable-app-mongodb-svc:27017/vegetable_order_app''
      | Some url \<Rightarrow>
          if url = [] then ''mongodb://vegetable-app-mongodb-svc:27017/vegetable_order_app''
          else url)"

datatype event =
    MongooseConnect string
  | ConsoleLog string
  | ConsoleError string
  | ProcessExit nat

definition connectToDatabase :: "(string \<Rightarrow> string option) \<Rightarrow> string \<Rightarrow> event list" where
  "connectToDatabase connect uri =
     MongooseConnect uri #
     (case connect uri of
        None \<Rightarrow> [ConsoleLog ([CHR 0xE2, CHR 0x9C, CHR 0x85] @ '' MongoDB connected successfully'')]
      | Some msg \<Rightarrow>
          [ConsoleError ([CHR 0xE2, CHR 0x9D, CHR 0x8C] @ '' MongoDB connection error: '' @ msg),
           ProcessExit 1])"

text \<open>Line 49: the program calls \<^verbatim>\<open>connectToDatabase()\<close> once, when it is loaded.\<close>

definition startup :: "(string \<Rightarrow> string option) \<Rightarrow> (string \<Rightarrow> string option) \<Rightarrow> event list" where
  "startup connect process_env = connectToDatabase connect (MONGO_URI process_env)"

fun is_connect :: "event \<Rightarrow> bool" where
  "is_connect (MongooseConnect uri) = True"
| "is_connect _ = False"

section \<open>A document store in memory\<close>

text \<open>
  A model of the storage layer (Mongoose over MongoDB) for the schemas above: the
  store maps a model name and an ObjectId to the document saved under it. What one
  request cannot determine is taken from an \<open>environment\<close>:
  \<^item> \<open>new_id\<close>, the ObjectId generated for the document the request constructs, and
    \<open>sub_id n\<close>, the one generated for the \<open>n\<close>-th element of its document array;
  \<^item> \<open>coerce\<close>, the library's cast of a value that is not of the schema's type already
    (\<open>None\<close> when the cast fails); only the casts below are written out;
  \<^item> \<open>fault\<close>, the error of the driver when the store cannot be reached;
  \<^item> \<open>message\<close>, the text the library gives an error.
\<close>

type_synonym oid = string

datatype path_elem = Key string | Index nat

type_synonym path = "path_elem list"

datatype storage_error =
    ValidationError string "path list"
  | ObjectIdCastError string string
  | DuplicateKeyError string oid

record environment =
  new_id :: oid
  sub_id :: "nat \<Rightarrow> oid"
  coerce :: "schema_type \<Rightarrow> json \<Rightarrow> json option"
  fault :: "string option"
  message :: "storage_error \<Rightarrow> string"

text \<open>A document: its \<^verbatim>\<open>_id\<close>, its fields after the cast, the paths whose cast failed
  (reported when it is saved), and its version key \<^verbatim>\<open>__v\<close>, set by the first save.\<close>

record document =
  doc_id :: oid
  doc_fields :: "(string \<times> json) list"
  cast_errors :: "path list"
  version :: "nat option"

type_synonym store = "string \<Rightarrow> oid \<Rightarrow> document option"

subsection \<open>Casting to a schema\<close>

text \<open>
  \<open>cast_value env t p v\<close> casts the value \<open>v\<close> found at path \<open>p\<close> to the schema type \<open>t\<close>
  and returns the paths that failed and the value kept (\<open>JUndefined\<close>: none).
  \<^item> An \<^verbatim>\<open>undefined\<close> value sets nothing; a document array defaults to \<^verbatim>\<open>[]\<close>.
  \<^item> A string for \<open>StringT\<close>, a number (finite or not) for \<open>NumberT\<close> and \<^verbatim>\<open>null\<close> for
    either are kept.
  \<^item> An object or an array for \<open>NumberT\<close> is a cast error.
  \<^item> An object for a nested path is cast key by key; keys outside the schema are
    dropped (strict mode), and an object left without keys is not stored.
  \<^item> An array of objects for a document array is cast element by element; each
    element gets an \<^verbatim>\<open>_id\<close> of its own.
  \<^item> Every other combination is left to \<open>coerce\<close>.
\<close>

definition coerced :: "environment \<Rightarrow> schema_type \<Rightarrow> path \<Rightarrow> json \<Rightarrow> path list \<times> json" where
  "coerced env t p v = (case coerce env t v of None \<Rightarrow> ([p], JUndefined) | Some w \<Rightarrow> ([], w))"

fun is_plain_item :: "json \<Rightarrow> bool" where
  "is_plain_item (JObj kvs) = (map_of kvs ''_id'' = None)"
| "is_plain_item _ = False"

definition gather ::
  "(string \<times> path list \<times> json) list \<Rightarrow> path list \<times> (string \<times> json) list" where
  "gather rs =
     (concat (map (\<lambda>r. fst (snd r)) rs),
      map (\<lambda>r. (fst r, snd (snd r))) (filter (\<lambda>r. snd (snd r) \<noteq> JUndefined) rs))"

definition minimize :: "(string \<times> json) list \<Rightarrow> json" where
  "minimize kvs = (if kvs = [] then JUndefined else JObj kvs)"

fun cast_value :: "environment \<Rightarrow> schema_type \<Rightarrow> path \<Rightarrow> json \<Rightarrow> path list \<times> json" where
  "cast_value env t p JUndefined = ([], case t of DocArray fs \<Rightarrow> JArr [] | _ \<Rightarrow> JUndefined)"
| "cast_value env StringT p JNull = ([], JNull)"
| "cast_value env StringT p (JStr s) = ([], JStr s)"
| "cast_value env NumberT p JNull = ([], JNull)"
| "cast_value env NumberT p (JNum n) = ([], JNum n)"
| "cast_value env NumberT p (JInfinity neg) = ([], JInfinity neg)"
| "cast_value env NumberT p (JObj kvs) = ([p], JUndefined)"
| "cast_value env NumberT p (JArr xs) = ([p], JUndefined)"
| "cast_value env (Nested fs) p (JObj kvs) =
     (let g = gather (map (\<lambda>f. (fst f, cast_value env (snd f) (p @ [Key (fst f)])
                                           (property (JObj kvs) (fst f)))) fs)
      in (fst g, minimize (snd g)))"
| "cast_value env (DocArray fs) p (JArr xs) =
     (if list_all is_plain_item xs
      then (let rs = map (\<lambda>ix.
                     (let g = gather (map (\<lambda>f. (fst f, cast_value env (snd f)
                                                           (p @ [Index (fst ix), Key (fst f)])
                                                           (property (snd ix) (fst f)))) fs)
                      in (fst g, JObj ((''_id'', JStr (sub_id env (fst ix))) # snd g))))
                     (enumerate 0 xs)
            in (concat (map fst rs), JArr (map snd rs)))
      else coerced env (DocArray fs) p (JArr xs))"
| "cast_value env t p v = coerced env t p v"

text \<open>The fields of a new document: the cast of the constructor's argument to the
  schema of the model.\<close>

definition cast_document ::
  "environment \<Rightarrow> schema \<Rightarrow> json \<Rightarrow> path list \<times> (string \<times> json) list" where
  "cast_document env sch obj =
     (case cast_value env (Nested sch) [] obj of
        (errs, JObj kvs) \<Rightarrow> (errs, kvs)
      | (errs, v) \<Rightarrow> (errs, []))"

subsection \<open>ObjectIds\<close>

text \<open>
  The driver reads a string as an ObjectId when it is 24 hexadecimal digits (either
  case) or 12 bytes; every other string is rejected. An ObjectId is kept as its 24
  lower-case hexadecimal digits, the form in which \<^verbatim>\<open>res.json\<close> sends it.
\<close>

definition is_hex :: "char \<Rightarrow> bool" where
  "is_hex c \<longleftrightarrow> c \<in> set ''0123456789abcdefABCDEF''"

definition lower_hex :: "char \<Rightarrow> char" where
  "lower_hex c =
     (if c = CHR ''A'' then CHR ''a'' else if c = CHR ''B'' then CHR ''b''
      else if c = CHR ''C'' then CHR ''c'' else if c = CHR ''D'' then CHR ''d''
      else if c = CHR ''E'' then CHR ''e'' else if c = CHR ''F'' then CHR ''f'' else c)"

definition hex_digit :: "nat \<Rightarrow> char" where
  "hex_digit n = ''0123456789abcdef'' ! (n mod 16)"

definition hex_of_bytes :: "string \<Rightarrow> string" where
  "hex_of_bytes s =
     concat (map (\<lambda>c. [hex_digit (of_char c div 16), hex_digit (of_char c mod 16)]) s)"

definition parse_object_id :: "string \<Rightarrow> oid option" where
  "parse_object_id s =
     (if length s = 24 \<and> list_all is_hex s then Some (map lower_hex s)
      else if length s = 12 then Some (hex_of_bytes s)
      else None)"

subsection \<open>The operations of a model\<close>

text \<open>The document as \<^verbatim>\<open>res.json(doc)\<close> sends it: its \<^verbatim>\<open>_id\<close>, its fields and its version
  key, through \<open>stringify\<close>.\<close>

definition document_json :: "document \<Rightarrow> json" where
  "document_json d =
     stringify
       (JObj ((''_id'', JStr (doc_id d)) # doc_fields d @
              (case version d of None \<Rightarrow> [] | Some n \<Rightarrow> [(''__v'', JNum (real n))])))"

text \<open>\<^verbatim>\<open>new Model(obj)\<close> does not throw on a value it cannot cast: it records the path.\<close>

definition mem_new_document :: "environment \<Rightarrow> schema \<Rightarrow> json \<Rightarrow> string + document" where
  "mem_new_document env sch obj =
     (case cast_document env sch obj of
        (errs, kvs) \<Rightarrow>
          Inr \<lparr>doc_id = new_id env, doc_fields = kvs, cast_errors = errs, version = None\<rparr>)"

text \<open>
  \<^verbatim>\<open>doc.save()\<close> of a new document validates it first, and rejects when a cast has
  failed; then it inserts the document, which fails when the store cannot be reached
  or when the collection holds a document of that \<^verbatim>\<open>_id\<close> already.
\<close>

definition mem_save ::
  "environment \<Rightarrow> string \<Rightarrow> store \<Rightarrow> document \<Rightarrow> (string + document) \<times> store" where
  "mem_save env name st d =
     (if cast_errors d \<noteq> [] then
        (Inl (message env (ValidationError name (cast_errors d))), st)
      else case fault env of
        Some msg \<Rightarrow> (Inl msg, st)
      | None \<Rightarrow>
          (case st name (doc_id d) of
             Some _ \<Rightarrow> (Inl (message env (DuplicateKeyError name (doc_id d))), st)
           | None \<Rightarrow>
               (Inr (d\<lparr>version := Some 0\<rparr>),
                st(name := (st name)(doc_id d \<mapsto> d\<lparr>version := Some 0\<rparr>)))))"

text \<open>\<^verbatim>\<open>Model.findById(id)\<close> casts \<open>id\<close> to an ObjectId, which fails before the store is
  asked, and then reads the document of that \<^verbatim>\<open>_id\<close>, if there is one.\<close>

definition mem_findById ::
  "environment \<Rightarrow> string \<Rightarrow> store \<Rightarrow> string \<Rightarrow> string + document option" where
  "mem_findById env name st i =
     (case parse_object_id i of
        None \<Rightarrow> Inl (message env (ObjectIdCastError name i))
      | Some oid \<Rightarrow>
          (case fault env of
             Some msg \<Rightarrow> Inl msg
           | None \<Rightarrow> Inr (st name oid)))"

definition mem :: "environment \<Rightarrow> (store, document) mongoose" where
  "mem env =
     \<lparr>mongoose_model = (\<lambda>name sch.
        \<lparr>new_document = mem_new_document env sch,
         save = mem_save env name,
         findById = mem_findById env name\<rparr>),
      get_id = doc_id,
      toJSON = document_json\<rparr>"

section \<open>The three entities, uniformly\<close>

text \<open>
  The six database routes are three copies of two handlers. These tables name what
  differs between the copies, so that a property can be stated once for all three;
  the lemmas \<open>handle_Create\<close> and \<open>handle_GetById\<close> below check the tables against
  the handlers.
\<close>

fun entity_model :: "('db, 'doc) mongoose \<Rightarrow> entity \<Rightarrow> ('db, 'doc) model" where
  "entity_model M OrderE = Order M"
| "entity_model M CartE = Cart M"
| "entity_model M CheckoutE = Checkout M"

fun entity_name :: "entity \<Rightarrow> string" where
  "entity_name OrderE = ''Order''"
| "entity_name CartE = ''Cart''"
| "entity_name CheckoutE = ''Checkout''"

fun entity_schema :: "entity \<Rightarrow> schema" where
  "entity_schema OrderE = orderSchema"
| "entity_schema CartE = cartSchema"
| "entity_schema CheckoutE = checkoutSchema"

fun allow_list :: "entity \<Rightarrow> string list" where
  "allow_list OrderE =
     [''name'', ''email'', ''phone'', ''address'', ''vegetables'', ''totalCost'']"
| "allow_list CartE = [''items'', ''totalCartCost'']"
| "allow_list CheckoutE = [''customer'', ''cart'', ''cartTotal'']"

fun id_key :: "entity \<Rightarrow> string" where
  "id_key OrderE = ''orderId''"
| "id_key CartE = ''cartId''"
| "id_key CheckoutE = ''checkoutId''"

fun created_message :: "entity \<Rightarrow> string" where
  "created_message OrderE = ''Order placed successfully!''"
| "created_message CartE = ''Cart data saved successfully!''"
| "created_message CheckoutE = ''Checkout successful!''"

fun not_found_message :: "entity \<Rightarrow> string" where
  "not_found_message OrderE = ''Order not found''"
| "not_found_message CartE = ''Cart not found''"
| "not_found_message CheckoutE = ''Checkout not found''"

text \<open>The object a create handler hands to the constructor: the allow-listed
  properties of the body, each present, \<^verbatim>\<open>undefined\<close> where the body has none.\<close>

definition allowed_fields :: "entity \<Rightarrow> json \<Rightarrow> json" where
  "allowed_fields e b = JObj (map (\<lambda>k. (k, property b k)) (allow_list e))"

fun nullish :: "json \<Rightarrow> bool" where
  "nullish JUndefined = True"
| "nullish JNull = True"
| "nullish _ = False"

subsection \<open>An atomic write\<close>

text \<open>A save that is rejected leaves the store as it was.\<close>

definition atomic_write :: "('db, 'doc) mongoose \<Rightarrow> bool" where
  "atomic_write M \<longleftrightarrow>
     (\<forall>name sch db d msg db'.
        save (mongoose_model M name sch) db d = (Inl msg, db') \<longrightarrow> db' = db)"

subsection \<open>Valid payloads and the record they are read back as\<close>

text \<open>
  \<open>conforms t v\<close>: the value \<open>v\<close> has the shape the schema type \<open>t\<close> declares, or is
  absent. A string conforms to \<open>StringT\<close>, a finite number (not beyond \<open>max_double\<close>, the
  largest double) to \<open>NumberT\<close>, an object with
  distinct keys of the schema and conforming values to a nested path, and an array
  of such objects (without identifiers of their own) to a document array. A payload
  is valid for an entity when it is an object and each allow-listed field conforms.

  \<open>wf_type\<close> holds of the schema types of this program: a schema names each key
  once, no field of a line item is named \<^verbatim>\<open>_id\<close>, and a document array is a field of
  the document itself, not of a nested path or of a line item.

  \<open>object_over ks r\<close>: \<open>r\<close> is an object with distinct keys, all among \<open>ks\<close>, each
  holding a value.

  \<open>agrees env t r x\<close> relates the value \<open>r\<close> that a record has in a field of type \<open>t\<close> to
  the value \<open>x\<close> of the input, in both directions:
  \<^item> a string or a number of the record is the input's, and absent when the input
    has none;
  \<^item> a nested object of the record has keys of the schema only, its fields agree
    with the fields of the input, one by one, and it is absent when none of them
    holds a value;
  \<^item> a line-item array of the record has one item for each item of the input, in
    order (none when the input has no array); the item has the \<^verbatim>\<open>_id\<close> generated for
    it and, besides, keys of the schema only, and its fields agree with the fields
    of the input item, one by one.
\<close>

definition max_double :: real where
  "max_double = 2 ^ 1024 - 2 ^ 971"

fun is_array :: "schema_type \<Rightarrow> bool" where
  "is_array (DocArray fs) = True"
| "is_array _ = False"

fun wf_type :: "schema_type \<Rightarrow> bool" where
  "wf_type (Nested fs) =
     (distinct (map fst fs) \<and> list_all (\<lambda>f. wf_type (snd f) \<and> \<not> is_array (snd f)) fs)"
| "wf_type (DocArray fs) =
     (distinct (map fst fs) \<and> ''_id'' \<notin> fst ` set fs \<and>
      list_all (\<lambda>f. wf_type (snd f) \<and> \<not> is_array (snd f)) fs)"
| "wf_type _ = True"

fun conforms :: "schema_type \<Rightarrow> json \<Rightarrow> bool" where
  "conforms t JUndefined = True"
| "conforms StringT (JStr s) = True"
| "conforms NumberT (JNum n) = (\<bar>n\<bar> \<le> max_double)"
| "conforms (Nested fs) (JObj kvs) =
     (distinct (map fst kvs) \<and> list_all (\<lambda>kv. fst kv \<in> fst ` set fs) kvs \<and>
      list_all (\<lambda>f. conforms (snd f) (property (JObj kvs) (fst f))) fs)"
| "conforms (DocArray fs) (JArr xs) =
     list_all (\<lambda>x. is_plain_item x \<and> conforms (Nested fs) x) xs"
| "conforms t v = False"

fun object_over :: "string list \<Rightarrow> json \<Rightarrow> bool" where
  "object_over ks (JObj kvs) =
     (distinct (map fst kvs) \<and> list_all (\<lambda>kv. fst kv \<in> set ks \<and> snd kv \<noteq> JUndefined) kvs)"
| "object_over ks r = False"

fun items_of :: "json \<Rightarrow> json list" where
  "items_of (JArr xs) = xs"
| "items_of x = []"

fun agrees :: "environment \<Rightarrow> schema_type \<Rightarrow> json \<Rightarrow> json \<Rightarrow> bool" where
  "agrees env StringT r x = (r = x)"
| "agrees env NumberT r x = (r = x)"
| "agrees env (Nested fs) r x =
     ((r = JUndefined \<or> (r \<noteq> JObj [] \<and> object_over (map fst fs) r)) \<and>
      list_all (\<lambda>f. agrees env (snd f) (property r (fst f)) (property x (fst f))) fs)"
| "agrees env (DocArray fs) r x =
     (length (items_of r) = length (items_of x) \<and> r = JArr (items_of r) \<and>
      list_all (\<lambda>i.
          object_over (''_id'' # map fst fs) (items_of r ! i) \<and>
          property (items_of r ! i) ''_id'' = JStr (sub_id env i) \<and>
          list_all (\<lambda>f. agrees env (snd f) (property (items_of r ! i) (fst f))
                                          (property (items_of x ! i) (fst f))) fs)
        [0..<length (items_of r)])"

definition valid_payload :: "entity \<Rightarrow> json \<Rightarrow> bool" where
  "valid_payload e b \<longleftrightarrow>
     \<not> nullish b \<and> list_all (\<lambda>f. conforms (snd f) (property b (fst f))) (entity_schema e)"

text \<open>A generated identifier is an ObjectId in the form \<^verbatim>\<open>res.json\<close> sends.\<close>

definition is_object_id :: "string \<Rightarrow> bool" where
  "is_object_id i \<longleftrightarrow> parse_object_id i = Some i"

subsection \<open>Sample data\<close>

text \<open>An environment in which the store is reachable, one in which it is not, an
  empty store, and the order of the specification's scenario.\<close>

definition sample_env :: environment where
  "sample_env =
     \<lparr>new_id = ''507f1f77bcf86cd799439011'',
      sub_id = (\<lambda>n. ''507f191e810c19729de860ea''),
      coerce = (\<lambda>t v. None),
      fault = None,
      message = (\<lambda>err. case err of
                   ValidationError name ps \<Rightarrow> name @ '' validation failed''
                 | ObjectIdCastError name v \<Rightarrow> ''Cast to ObjectId failed''
                 | DuplicateKeyError name i \<Rightarrow> ''E11000 duplicate key error'')\<rparr>"

definition offline_env :: environment where
  "offline_env = sample_env\<lparr>fault := Some ''connection timed out''\<rparr>"

definition empty_store :: store where
  "empty_store = (\<lambda>name. Map.empty)"

definition sample_order :: json where
  "sample_order =
     JObj [(''name'', JStr ''A''), (''email'', JStr ''a@x.com''), (''phone'', JStr ''123''),
           (''address'', JObj [(''city'', JStr ''X'')]),
           (''vegetables'', JObj [(''tomatoQty'', JNum 2)]),
           (''totalCost'', JNum 40)]"

text \<open>A cart that was saved earlier, and a store that holds it.\<close>

definition sample_cart :: document where
  "sample_cart =
     \<lparr>doc_id = ''507f191e810c19729de860ea'',
      doc_fields = [(''items'', JArr []), (''totalCartCost'', JNum 5)],
      cast_errors = [], version = Some 0\<rparr>"

definition one_cart_store :: store where
  "one_cart_store = empty_store(''Cart'' := [''507f191e810c19729de860ea'' \<mapsto> sample_cart])"

text \<open>A cart with one line item, as a client posts it.\<close>

definition sample_cart_body :: json where
  "sample_cart_body =
     JObj [(''items'', JArr [JObj [(''name'', JStr ''tomato''), (''quantity'', JNum 1),
                                   (''totalCost'', JNum 20)]]),
           (''totalCartCost'', JNum 20)]"

section \<open>Properties\<close>

subsection \<open>The handlers in uniform shape\<close>

lemma destructure_ok: "\<not> nullish b \<Longrightarrow> destructure a b = Inr b"
  by (cases b) simp_all

lemma destructure_cases: "destructure a b = Inr b' \<Longrightarrow> b' = b \<and> \<not> nullish b"
  by (cases b) auto

lemma entity_model_eq: "entity_model M e = mongoose_model M (entity_name e) (entity_schema e)"
  by (cases e) (simp_all add: Order_def Cart_def Checkout_def)

lemma handle_Create:
  "handle M db (Create e b) =
     (case destructure (hd (allow_list e)) b of
        Inl msg \<Rightarrow> (db, error_response msg)
      | Inr b' \<Rightarrow>
          (case new_document (entity_model M e) (allowed_fields e b') of
             Inl msg \<Rightarrow> (db, error_response msg)
           | Inr d \<Rightarrow>
               (case save (entity_model M e) db d of
                  (Inl msg, db') \<Rightarrow> (db', error_response msg)
                | (Inr d', db') \<Rightarrow>
                    (db', \<lparr>status = 201,
                           body = JObj [(''message'', JStr (created_message e)),
                                        (id_key e, JStr (get_id M d'))]\<rparr>))))"
  by (cases e)
     (simp_all add: post_order_def post_cart_def post_checkout_def allowed_fields_def
               split: sum.splits prod.splits)

lemma handle_GetById:
  "handle M db (GetById e i) =
     (case findById (entity_model M e) db i of
        Inl msg \<Rightarrow> (db, error_response msg)
      | Inr None \<Rightarrow>
          (db, \<lparr>status = 404, body = JObj [(''message'', JStr (not_found_message e))]\<rparr>)
      | Inr (Some d) \<Rightarrow> (db, \<lparr>status = 200, body = toJSON M d\<rparr>))"
  by (cases e)
     (simp_all add: get_order_def get_cart_def get_checkout_def
               split: sum.splits option.splits)


subsection \<open>The store in memory\<close>

lemma mem_simps [simp]:
  "new_document (mongoose_model (mem env) name sch) = mem_new_document env sch"
  "save (mongoose_model (mem env) name sch) = mem_save env name"
  "findById (mongoose_model (mem env) name sch) = mem_findById env name"
  "get_id (mem env) = doc_id"
  "toJSON (mem env) = document_json"
  by (simp_all add: mem_def)

lemmas models = Order_def Cart_def Checkout_def

lemma mem_save_rejected: "mem_save env name st d = (Inl msg, st') \<Longrightarrow> st' = st"
  by (auto simp: mem_save_def split: if_splits option.splits)

lemma mem_save_keeps:
  "mem_save env name st d = (res, st') \<Longrightarrow> st n i = Some x \<Longrightarrow> st' n i = Some x"
  by (auto simp: mem_save_def split: if_splits option.splits)

lemma mem_save_local:
  "mem_save env name st d = (res, st') \<Longrightarrow> n \<noteq> name \<Longrightarrow> st' n = st n"
  by (auto simp: mem_save_def split: if_splits option.splits)

lemma atomic_write_mem: "atomic_write (mem env)"
  by (auto simp: atomic_write_def dest: mem_save_rejected)

subsection \<open>Casting a valid payload\<close>

lemma property_gather:
  assumes "distinct (map fst rs)" and "(k, es, v) \<in> set rs"
  shows "property (JObj (snd (gather rs))) k = v"
  using assms
proof (induction rs)
  case Nil
  then show ?case by simp
next
  case (Cons r rs)
  show ?case
  proof (cases "fst r = k")
    case True
    with Cons.prems have r: "r = (k, es, v)"
      by (auto simp: rev_image_eqI)
    from Cons.prems True have "k \<notin> fst ` set rs"
      by auto
    then have "map_of (map (\<lambda>r. (fst r, snd (snd r))) (filter (\<lambda>r. snd (snd r) \<noteq> JUndefined) rs)) k = None"
      by (auto simp: map_of_eq_None_iff image_iff)
    with r show ?thesis
      by (simp add: gather_def)
  next
    case False
    with Cons.prems have "(k, es, v) \<in> set rs" "distinct (map fst rs)"
      by auto
    with Cons.IH have "property (JObj (snd (gather rs))) k = v"
      by simp
    with False show ?thesis
      by (simp add: gather_def)
  qed
qed

lemma property_minimize: "property (minimize kvs) k = property (JObj kvs) k"
  by (simp add: minimize_def)

lemma gather_no_errors:
  "fst (gather rs) = [] \<longleftrightarrow> (\<forall>r \<in> set rs. fst (snd r) = [])"
  by (simp add: gather_def)

lemma gather_keys: "map fst (snd (gather rs)) = map fst (filter (\<lambda>r. snd (snd r) \<noteq> JUndefined) rs)"
  by (simp add: gather_def comp_def)

lemma gather_distinct: "distinct (map fst rs) \<Longrightarrow> distinct (map fst (snd (gather rs)))"
  by (simp add: gather_keys distinct_map_filter)

lemma gather_entry:
  "kv \<in> set (snd (gather rs)) \<Longrightarrow>
   snd kv \<noteq> JUndefined \<and> (\<exists>r \<in> set rs. fst r = fst kv \<and> snd (snd r) = snd kv)"
  by (force simp: gather_def)

lemma stringify_object:
  assumes "\<forall>kv \<in> set kvs. snd kv \<noteq> JUndefined \<and> stringify (snd kv) = snd kv"
  shows "stringify (JObj kvs) = JObj kvs"
proof -
  from assms have "filter (\<lambda>kv. snd kv \<noteq> JUndefined) kvs = kvs"
    by (simp add: filter_id_conv)
  moreover from assms have "map (\<lambda>kv. (fst kv, stringify (snd kv))) kvs = kvs"
    by (simp add: map_idI)
  ultimately show ?thesis
    by simp
qed

lemma stringify_array:
  assumes "\<forall>x \<in> set xs. x \<noteq> JUndefined \<and> stringify x = x"
  shows "stringify (JArr xs) = JArr xs"
  using assms by (simp add: map_idI)

text \<open>What the cast of the fields of an object gives, when each field is cast without
  error to a value that agrees with the input and that \<open>stringify\<close> leaves as it is.\<close>

lemma cast_object:
  assumes fs: "distinct (map fst fs)"
    and c: "\<forall>f \<in> set fs. fst (c f) = [] \<and> agrees env (snd f) (snd (c f)) (property x (fst f)) \<and>
                          stringify (snd (c f)) = snd (c f)"
  defines "g \<equiv> gather (map (\<lambda>f. (fst f, c f)) fs)"
  shows "fst g = []"
    and "distinct (map fst (snd g))"
    and "\<forall>kv \<in> set (snd g). fst kv \<in> fst ` set fs \<and> snd kv \<noteq> JUndefined \<and>
                              stringify (snd kv) = snd kv"
    and "\<forall>f \<in> set fs. property (JObj (snd g)) (fst f) = snd (c f)"
    and "list_all (\<lambda>f. agrees env (snd f) (property (JObj (snd g)) (fst f)) (property x (fst f))) fs"
proof -
  let ?rs = "map (\<lambda>f. (fst f, c f)) fs"
  have d: "distinct (map fst ?rs)"
    using fs by (simp add: comp_def)
  show "fst g = []"
    using c by (simp add: g_def gather_no_errors)
  show "distinct (map fst (snd g))"
    unfolding g_def using d by (rule gather_distinct)
  show "\<forall>kv \<in> set (snd g). fst kv \<in> fst ` set fs \<and> snd kv \<noteq> JUndefined \<and>
                              stringify (snd kv) = snd kv"
  proof
    fix kv assume "kv \<in> set (snd g)"
    from gather_entry [OF this [unfolded g_def]] obtain f where
      "snd kv \<noteq> JUndefined" "f \<in> set fs" "fst f = fst kv" "snd (c f) = snd kv"
      by auto
    with c show "fst kv \<in> fst ` set fs \<and> snd kv \<noteq> JUndefined \<and> stringify (snd kv) = snd kv"
      by (metis imageI)
  qed
  show p: "\<forall>f \<in> set fs. property (JObj (snd g)) (fst f) = snd (c f)"
  proof
    fix f assume "f \<in> set fs"
    then have "(fst f, fst (c f), snd (c f)) \<in> set ?rs"
      by (auto simp: image_iff intro!: bexI [of _ f])
    from property_gather [OF d this] show "property (JObj (snd g)) (fst f) = snd (c f)"
      by (simp add: g_def)
  qed
  show "list_all (\<lambda>f. agrees env (snd f) (property (JObj (snd g)) (fst f)) (property x (fst f))) fs"
    using c p by (simp add: list_all_iff)
qed

lemma snd_in_snds: "snd f \<in> Basic_BNFs.snds f"
  by (cases f) simp

lemma agrees_absent:
  assumes "wf_type t" and "\<not> is_array t"
  shows "agrees env t JUndefined JUndefined"
  using assms
proof (induction t)
  case (Nested fs)
  then have "\<forall>f \<in> set fs. agrees env (snd f) JUndefined JUndefined"
    using snd_in_snds by (fastforce simp: list_all_iff)
  then show ?case
    by (simp add: list_all_iff)
qed simp_all


lemma cast_item:
  fixes i :: string
  assumes fs: "distinct (map fst fs)" "''_id'' \<notin> fst ` set fs"
    and c: "\<forall>f \<in> set fs. fst (c f) = [] \<and> agrees env (snd f) (snd (c f)) (property x (fst f)) \<and>
                          stringify (snd (c f)) = snd (c f)"
    and g_def: "g = gather (map (\<lambda>f. (fst f, c f)) fs)"
    and item_def: "item = JObj ((''_id'', JStr i) # snd g)"
  shows "fst g = [] \<and>
         object_over (''_id'' # map fst fs) item \<and>
         property item ''_id'' = JStr i \<and>
         list_all (\<lambda>f. agrees env (snd f) (property item (fst f)) (property x (fst f))) fs \<and>
         stringify item = item"
proof -
  note o = cast_object [OF fs(1) c, folded g_def]
  from o(3) fs(2) have n: "''_id'' \<notin> fst ` set (snd g)"
    by force
  with o(2,3) have 1: "object_over (''_id'' # map fst fs) item"
    by (auto simp: item_def list_all_iff)
  have 2: "property item ''_id'' = JStr i"
    by (simp add: item_def)
  have "property item (fst f) = property (JObj (snd g)) (fst f)" if "f \<in> set fs" for f
  proof -
    from that fs(2) have "fst f \<noteq> ''_id''"
      by force
    then show ?thesis
      by (simp add: item_def)
  qed
  with o(5) have 3: "list_all (\<lambda>f. agrees env (snd f) (property item (fst f)) (property x (fst f))) fs"
    by (simp add: list_all_iff)
  have 4: "stringify item = item"
    unfolding item_def using o(3) by (intro stringify_object) auto
  from o(1) 1 2 3 4 show ?thesis
    by simp
qed

lemma cast_agrees:
  assumes "wf_type t" and "conforms t v"
  shows "fst (cast_value env t p v) = [] \<and>
         agrees env t (snd (cast_value env t p v)) v \<and>
         stringify (snd (cast_value env t p v)) = snd (cast_value env t p v)"
  using assms
proof (induction t arbitrary: p v)
  case StringT
  then show ?case by (cases v) simp_all
next
  case NumberT
  then show ?case by (cases v) simp_all
next
  case (Nested fs)
  show ?case
  proof (cases v)
    case JUndefined
    with agrees_absent [OF Nested.prems(1)] show ?thesis
      by simp
  next
    case (JObj kvs)
    let ?c = "\<lambda>f. cast_value env (snd f) (p @ [Key (fst f)]) (property (JObj kvs) (fst f))"
    let ?g = "gather (map (\<lambda>f. (fst f, ?c f)) fs)"
    from Nested.prems JObj have
      fs: "distinct (map fst fs)" "\<forall>f \<in> set fs. wf_type (snd f)" and
      cf: "\<forall>f \<in> set fs. conforms (snd f) (property (JObj kvs) (fst f))"
      by (simp_all add: list_all_iff)
    have c: "\<forall>f \<in> set fs. fst (?c f) = [] \<and>
               agrees env (snd f) (snd (?c f)) (property (JObj kvs) (fst f)) \<and>
               stringify (snd (?c f)) = snd (?c f)"
      using Nested.IH fs(2) cf snd_in_snds by blast
    note o = cast_object [OF fs(1) c]
    have v: "cast_value env (Nested fs) p v = (fst ?g, minimize (snd ?g))"
      using JObj by (simp add: Let_def)
    have "minimize (snd ?g) = JUndefined \<or>
          (minimize (snd ?g) \<noteq> JObj [] \<and> object_over (map fst fs) (minimize (snd ?g)))"
      using o(2,3) by (auto simp: minimize_def list_all_iff)
    moreover have "list_all (\<lambda>f. agrees env (snd f) (property (minimize (snd ?g)) (fst f))
                                    (property v (fst f))) fs"
      using o(5) JObj by (simp add: property_minimize)
    moreover have "stringify (minimize (snd ?g)) = minimize (snd ?g)"
    proof (cases "snd ?g = []")
      case True
      then show ?thesis by (simp add: minimize_def)
    next
      case False
      have "stringify (JObj (snd ?g)) = JObj (snd ?g)"
        using o(3) by (intro stringify_object) auto
      with False show ?thesis by (simp add: minimize_def)
    qed
    ultimately show ?thesis
      using o(1) by (simp add: v)
  qed (use Nested.prems in simp_all)
next
  case (DocArray fs)
  show ?case
  proof (cases v)
    case JUndefined
    then show ?thesis by simp
  next
    case (JArr xs)
    define F where "F = (\<lambda>ix.
      (fst (gather (map (\<lambda>f. (fst f, cast_value env (snd f)
                  (p @ [Index (fst ix), Key (fst f)]) (property (snd ix) (fst f)))) fs)),
       JObj ((''_id'', JStr (sub_id env (fst ix))) #
             snd (gather (map (\<lambda>f. (fst f, cast_value env (snd f)
                  (p @ [Index (fst ix), Key (fst f)]) (property (snd ix) (fst f)))) fs)))))"
    define rs where "rs = map snd (map F (enumerate 0 xs))"
    from DocArray.prems JArr have
      fs: "distinct (map fst fs)" "''_id'' \<notin> fst ` set fs" "\<forall>f \<in> set fs. wf_type (snd f)" and
      xs: "list_all is_plain_item xs" "\<forall>x \<in> set xs. conforms (Nested fs) x"
      by (simp_all add: list_all_iff)
    have item:
      "fst (F (i, x)) = [] \<and>
       object_over (''_id'' # map fst fs) (snd (F (i, x))) \<and>
       property (snd (F (i, x))) ''_id'' = JStr (sub_id env i) \<and>
       list_all (\<lambda>f. agrees env (snd f) (property (snd (F (i, x))) (fst f)) (property x (fst f))) fs \<and>
       stringify (snd (F (i, x))) = snd (F (i, x))"
      if "x \<in> set xs" for i x
    proof -
      from that xs have px: "is_plain_item x" and cx0: "conforms (Nested fs) x"
        by (auto simp: list_all_iff)
      from px obtain kvs where x: "x = JObj kvs"
        by (cases x rule: json.exhaust) auto
      let ?c = "\<lambda>f. cast_value env (snd f) (p @ [Index i, Key (fst f)]) (property x (fst f))"
      from cx0 x have cf: "\<forall>f \<in> set fs. conforms (snd f) (property x (fst f))"
        by (simp add: list_all_iff)
      have c: "\<forall>f \<in> set fs. fst (?c f) = [] \<and>
                 agrees env (snd f) (snd (?c f)) (property x (fst f)) \<and>
                 stringify (snd (?c f)) = snd (?c f)"
        using DocArray.IH fs(3) cf snd_in_snds by blast
      from cast_item [OF fs(1,2) c refl refl, of "sub_id env i"] show ?thesis
        by (simp add: F_def)
    qed
    have v: "cast_value env (DocArray fs) p v = (concat (map fst (map F (enumerate 0 xs))), JArr rs)"
      using JArr xs(1) by (simp add: Let_def F_def rs_def)
    have len: "length rs = length xs"
      by (simp add: rs_def)
    have nth: "rs ! i = snd (F (i, xs ! i))" if "i < length xs" for i
      using that by (simp add: rs_def nth_enumerate_eq)
    have ok: "object_over (''_id'' # map fst fs) (rs ! i) \<and>
       property (rs ! i) ''_id'' = JStr (sub_id env i) \<and>
       list_all (\<lambda>f. agrees env (snd f) (property (rs ! i) (fst f)) (property (xs ! i) (fst f))) fs \<and>
       rs ! i \<noteq> JUndefined \<and> stringify (rs ! i) = rs ! i"
      if "i < length xs" for i
    proof -
      from that have "xs ! i \<in> set xs"
        by simp
      from item [OF this, of i] nth [OF that] show ?thesis
        by (cases "rs ! i") auto
    qed
    have "concat (map fst (map F (enumerate 0 xs))) = []"
      using item by (auto simp: in_set_enumerate_eq)
    moreover have "agrees env (DocArray fs) (JArr rs) v"
      unfolding JArr agrees.simps items_of.simps len
      using ok by (simp add: list_all_iff)
    moreover have "stringify (JArr rs) = JArr rs"
    proof (rule stringify_array, rule ballI)
      fix r assume "r \<in> set rs"
      then obtain i where "i < length rs" "rs ! i = r"
        by (auto simp: in_set_conv_nth)
      with ok len show "r \<noteq> JUndefined \<and> stringify r = r"
        by auto
    qed
    ultimately show ?thesis
      by (simp only: v fst_conv snd_conv simp_thms)
  qed (use DocArray.prems in simp_all)
qed


lemma cast_document_eq:
  "cast_document env sch (JObj kvs) =
     gather (map (\<lambda>f. (fst f, cast_value env (snd f) [Key (fst f)] (property (JObj kvs) (fst f)))) sch)"
proof -
  let ?g = "gather (map (\<lambda>f. (fst f, cast_value env (snd f) [Key (fst f)]
                                       (property (JObj kvs) (fst f)))) sch)"
  have "cast_value env (Nested sch) [] (JObj kvs) = (fst ?g, minimize (snd ?g))"
    by (simp add: Let_def)
  then show ?thesis
    by (cases ?g) (auto simp: cast_document_def minimize_def)
qed

lemma schema_keys: "map fst (entity_schema e) = allow_list e"
  by (cases e) (simp_all add: orderSchema_def cartSchema_def checkoutSchema_def)

lemma wf_schemas:
  "distinct (map fst (entity_schema e)) \<and> (\<forall>f \<in> set (entity_schema e). wf_type (snd f))"
  by (cases e) (simp_all add: orderSchema_def cartSchema_def checkoutSchema_def addressSchema_def)

lemma allow_list_not_internal: "k \<in> set (allow_list e) \<Longrightarrow> k \<noteq> ''_id'' \<and> k \<noteq> ''__v''"
  by (cases e) auto

lemma property_allowed_fields:
  "k \<in> set (allow_list e) \<Longrightarrow> property (allowed_fields e b) k = property b k"
  by (simp add: allowed_fields_def map_of_map_restrict)

lemma cast_valid_payload:
  assumes "valid_payload e b"
  shows "\<exists>fields.
           cast_document env (entity_schema e) (allowed_fields e b) = ([], fields) \<and>
           distinct (map fst fields) \<and>
           (\<forall>kv \<in> set fields. fst kv \<in> set (allow_list e) \<and> snd kv \<noteq> JUndefined \<and>
                               stringify (snd kv) = snd kv) \<and>
           list_all (\<lambda>f. agrees env (snd f) (property (JObj fields) (fst f)) (property b (fst f)))
             (entity_schema e)"
proof -
  let ?fs = "entity_schema e"
  let ?kvs = "map (\<lambda>k. (k, property b k)) (allow_list e)"
  let ?c = "\<lambda>f. cast_value env (snd f) [Key (fst f)] (property (JObj ?kvs) (fst f))"
  let ?g = "gather (map (\<lambda>f. (fst f, ?c f)) ?fs)"
  have keys: "fst ` set ?fs = set (allow_list e)"
    using schema_keys [of e] by (metis set_map)
  have p: "property (JObj ?kvs) (fst f) = property b (fst f)" if "f \<in> set ?fs" for f
  proof -
    from that keys have "fst f \<in> set (allow_list e)"
      by force
    then show ?thesis
      using property_allowed_fields [of "fst f" e b] by (simp add: allowed_fields_def)
  qed
  have c: "\<forall>f \<in> set ?fs. fst (?c f) = [] \<and>
             agrees env (snd f) (snd (?c f)) (property b (fst f)) \<and>
             stringify (snd (?c f)) = snd (?c f)"
  proof
    fix f assume f: "f \<in> set ?fs"
    with assms have "conforms (snd f) (property b (fst f))"
      by (simp add: valid_payload_def list_all_iff)
    moreover from f wf_schemas [of e] have "wf_type (snd f)"
      by simp
    ultimately show "fst (?c f) = [] \<and>
             agrees env (snd f) (snd (?c f)) (property b (fst f)) \<and>
             stringify (snd (?c f)) = snd (?c f)"
      using cast_agrees [of "snd f" "property b (fst f)" env "[Key (fst f)]"] p [OF f]
      by simp
  qed
  from wf_schemas [of e] have d: "distinct (map fst ?fs)"
    by simp
  note o = cast_object [OF d c]
  have "cast_document env ?fs (allowed_fields e b) = ([], snd ?g)"
    using o(1) by (simp add: allowed_fields_def cast_document_eq prod_eq_iff)
  with o(2,3,5) keys show ?thesis
    by auto
qed

lemma stringify_record:
  assumes "\<forall>kv \<in> set kvs. snd kv \<noteq> JUndefined \<and> stringify (snd kv) = snd kv"
  shows "document_json \<lparr>doc_id = i, doc_fields = kvs, cast_errors = es, version = Some n\<rparr> =
           JObj ((''_id'', JStr i) # kvs @ [(''__v'', JNum (real n))])"
proof -
  have "stringify (JObj ((''_id'', JStr i) # kvs @ [(''__v'', JNum (real n))])) =
          JObj ((''_id'', JStr i) # kvs @ [(''__v'', JNum (real n))])"
    using assms by (intro stringify_object) auto
  then show ?thesis
    by (simp add: document_json_def)
qed

lemma property_record:
  assumes "k \<noteq> ''_id''" and "k \<noteq> ''__v''"
  shows "property (JObj ((''_id'', v) # kvs @ [(''__v'', w)])) k = property (JObj kvs) k"
  using assms by (auto simp: map_add_def split: option.splits)

lemma property_record_version:
  assumes "''__v'' \<notin> fst ` set kvs"
  shows "property (JObj ((''_id'', v) # kvs @ [(''__v'', w)])) ''__v'' = w"
proof -
  from assms have "map_of kvs ''__v'' = None"
    by (simp add: map_of_eq_None_iff)
  then show ?thesis
    by (simp add: map_add_def)
qed

subsection \<open>Sample requests\<close>

lemma sample_id: "is_object_id ''507f1f77bcf86cd799439011''"
  by (simp add: is_object_id_def parse_object_id_def is_hex_def lower_hex_def)

lemma sample_cart_create:
  "handle (mem sample_env) empty_store (Create CartE sample_cart_body) =
     (empty_store(''Cart'' := [''507f1f77bcf86cd799439011'' \<mapsto>
        \<lparr>doc_id = ''507f1f77bcf86cd799439011'',
         doc_fields =
           [(''items'', JArr [JObj [(''_id'', JStr ''507f191e810c19729de860ea''),
                                    (''name'', JStr ''tomato''), (''quantity'', JNum 1),
                                    (''totalCost'', JNum 20)]]),
            (''totalCartCost'', JNum 20)],
         cast_errors = [], version = Some 0\<rparr>]),
      \<lparr>status = 201,
       body = JObj [(''message'', JStr ''Cart data saved successfully!''),
                    (''cartId'', JStr ''507f1f77bcf86cd799439011'')]\<rparr>)"
proof -
  have "mem_new_document sample_env cartSchema (allowed_fields CartE sample_cart_body) =
     Inr \<lparr>doc_id = ''507f1f77bcf86cd799439011'',
         doc_fields =
           [(''items'', JArr [JObj [(''_id'', JStr ''507f191e810c19729de860ea''),
                                    (''name'', JStr ''tomato''), (''quantity'', JNum 1),
                                    (''totalCost'', JNum 20)]]),
            (''totalCartCost'', JNum 20)],
         cast_errors = [], version = None\<rparr>"
    by (simp add: mem_new_document_def cast_document_def allowed_fields_def cartSchema_def
          gather_def minimize_def sample_env_def sample_cart_body_def)
  moreover have "\<not> nullish sample_cart_body"
    by (simp add: sample_cart_body_def)
  moreover have "fault sample_env = None"
    by (simp add: sample_env_def)
  ultimately show ?thesis
    by (simp add: handle_Create destructure_ok models mem_save_def empty_store_def)
qed

lemma huge_order_create:
  "handle (mem sample_env) empty_store (Create OrderE (JObj [(''totalCost'', JInfinity False)])) =
     (empty_store(''Order'' := [''507f1f77bcf86cd799439011'' \<mapsto>
        \<lparr>doc_id = ''507f1f77bcf86cd799439011'',
         doc_fields = [(''totalCost'', JInfinity False)],
         cast_errors = [], version = Some 0\<rparr>]),
      \<lparr>status = 201,
       body = JObj [(''message'', JStr ''Order placed successfully!''),
                    (''orderId'', JStr ''507f1f77bcf86cd799439011'')]\<rparr>)"
proof -
  have "mem_new_document sample_env orderSchema
          (allowed_fields OrderE (JObj [(''totalCost'', JInfinity False)])) =
     Inr \<lparr>doc_id = ''507f1f77bcf86cd799439011'',
         doc_fields = [(''totalCost'', JInfinity False)],
         cast_errors = [], version = None\<rparr>"
    by (simp add: mem_new_document_def cast_document_def allowed_fields_def orderSchema_def
          gather_def minimize_def sample_env_def)
  moreover have "fault sample_env = None"
    by (simp add: sample_env_def)
  ultimately show ?thesis
    by (simp add: handle_Create models mem_save_def empty_store_def)
qed

subsection \<open>The fields of a stored document\<close>



subsection \<open>Claims\<close>

text \<open>
  C1, as amended. Round trip of create followed by read, on the document store. Let
  \<open>b\<close> be a valid payload for the entity \<open>e\<close> (its numbers finite), the store
  reachable, and the generated identifier an ObjectId that the collection does not
  hold. Then the create operation answers 201 with that identifier, and the read
  operation with it answers 200 with a record \<open>rec\<close> and leaves the store as it is.
  The record holds its \<^verbatim>\<open>_id\<close>, the version key \<^verbatim>\<open>__v\<close> and allow-listed fields, nothing
  else, and each allow-listed field of it agrees with the field of \<open>b\<close>: a string or a
  number is equal, and absent when \<open>b\<close> has none; a nested object has the fields of
  the input and no other; a line-item array has one item for each item of the
  input, in order, with the fields of that item and an \<^verbatim>\<open>_id\<close> of its own, and is \<^verbatim>\<open>[]\<close>
  when \<open>b\<close> has no array. The witness is the order scenario of the specification.
\<close>

theorem create_then_get_roundtrip:
  assumes "valid_payload e b" and "fault env = None"
    and "is_object_id (new_id env)" and "st (entity_name e) (new_id env) = None"
  shows "\<exists>st' rec.
           handle (mem env) st (Create e b) =
             (st', \<lparr>status = 201,
                    body = JObj [(''message'', JStr (created_message e)),
                                 (id_key e, JStr (new_id env))]\<rparr>) \<and>
           handle (mem env) st' (GetById e (new_id env)) = (st', \<lparr>status = 200, body = rec\<rparr>) \<and>
           object_over (''_id'' # ''__v'' # allow_list e) rec \<and>
           property rec ''_id'' = JStr (new_id env) \<and>
           property rec ''__v'' = JNum 0 \<and>
           list_all (\<lambda>f. agrees env (snd f) (property rec (fst f)) (property b (fst f)))
             (entity_schema e)"
proof -
  from cast_valid_payload [OF assms(1)] obtain fields where
    c: "cast_document env (entity_schema e) (allowed_fields e b) = ([], fields)" and
    d: "distinct (map fst fields)" and
    k: "\<forall>kv \<in> set fields. fst kv \<in> set (allow_list e) \<and> snd kv \<noteq> JUndefined \<and>
                             stringify (snd kv) = snd kv" and
    a: "list_all (\<lambda>f. agrees env (snd f) (property (JObj fields) (fst f)) (property b (fst f)))
          (entity_schema e)"
    by blast
  let ?d = "\<lparr>doc_id = new_id env, doc_fields = fields, cast_errors = [], version = Some 0\<rparr>"
  let ?st = "st(entity_name e := (st (entity_name e))(new_id env \<mapsto> ?d))"
  let ?rec = "JObj ((''_id'', JStr (new_id env)) # fields @ [(''__v'', JNum 0)])"
  from assms(1) have b: "\<not> nullish b"
    by (simp add: valid_payload_def)
  have post: "handle (mem env) st (Create e b) =
      (?st, \<lparr>status = 201,
             body = JObj [(''message'', JStr (created_message e)),
                          (id_key e, JStr (new_id env))]\<rparr>)"
    using b c assms(2,4)
    by (simp add: handle_Create destructure_ok entity_model_eq mem_new_document_def mem_save_def)
  have "document_json ?d = ?rec"
    using k stringify_record [of fields "new_id env" "[]" 0] by simp
  then have get: "handle (mem env) ?st (GetById e (new_id env)) =
      (?st, \<lparr>status = 200, body = ?rec\<rparr>)"
    using assms(2,3)
    by (simp add: handle_GetById entity_model_eq mem_findById_def is_object_id_def)
  from k have n: "''_id'' \<notin> fst ` set fields" "''__v'' \<notin> fst ` set fields"
    using allow_list_not_internal [of _ e] by force+
  with d k have o: "object_over (''_id'' # ''__v'' # allow_list e) ?rec"
    by (auto simp: list_all_iff)
  have i: "property ?rec ''_id'' = JStr (new_id env)"
    by simp
  have v: "property ?rec ''__v'' = JNum 0"
    using n(2) by (rule property_record_version)
  have "property ?rec (fst f) = property (JObj fields) (fst f)" if "f \<in> set (entity_schema e)" for f
  proof -
    from that have "fst f \<in> set (allow_list e)"
      using schema_keys [of e] by (metis image_eqI set_map)
    with allow_list_not_internal show ?thesis
      by (intro property_record) auto
  qed
  with a have "list_all (\<lambda>f. agrees env (snd f) (property ?rec (fst f)) (property b (fst f)))
      (entity_schema e)"
    by (simp add: list_all_iff)
  with post get o i v show ?thesis
    by blast
qed

theorem create_then_get_roundtrip_witness:
  "\<exists>st' rec.
     handle (mem sample_env) empty_store (Create OrderE sample_order) =
       (st', \<lparr>status = 201,
              body = JObj [(''message'', JStr ''Order placed successfully!''),
                           (''orderId'', JStr ''507f1f77bcf86cd799439011'')]\<rparr>) \<and>
     handle (mem sample_env) st' (GetById OrderE ''507f1f77bcf86cd799439011'') =
       (st', \<lparr>status = 200, body = rec\<rparr>) \<and>
     property rec ''_id'' = JStr ''507f1f77bcf86cd799439011'' \<and>
     property rec ''name'' = JStr ''A'' \<and>
     property rec ''totalCost'' = JNum 40 \<and>
     property (property rec ''vegetables'') ''tomatoQty'' = JNum 2 \<and>
     property (property rec ''vegetables'') ''onionQty'' = JUndefined"
proof -
  have v: "valid_payload OrderE sample_order"
    by (simp add: valid_payload_def sample_order_def orderSchema_def addressSchema_def
          max_double_def)
  have e: "fault sample_env = None" "is_object_id (new_id sample_env)"
    "empty_store (entity_name OrderE) (new_id sample_env) = None"
    using sample_id by (simp_all add: sample_env_def empty_store_def)
  from create_then_get_roundtrip [where st = empty_store, OF v e] obtain st' rec where
    "handle (mem sample_env) empty_store (Create OrderE sample_order) =
       (st', \<lparr>status = 201,
              body = JObj [(''message'', JStr (created_message OrderE)),
                           (id_key OrderE, JStr (new_id sample_env))]\<rparr>)"
    "handle (mem sample_env) st' (GetById OrderE (new_id sample_env)) =
       (st', \<lparr>status = 200, body = rec\<rparr>)"
    "property rec ''_id'' = JStr (new_id sample_env)"
    "list_all (\<lambda>f. agrees sample_env (snd f) (property rec (fst f)) (property sample_order (fst f)))
       (entity_schema OrderE)"
    by blast
  then show ?thesis
    by (auto simp: sample_env_def sample_order_def orderSchema_def)
qed

text \<open>
  C1, as stated, fails at explicit inputs. A cart with one line item is created (201)
  and read back (200), but the \<open>items\<close> of the record are not equal to the \<open>items\<close> of
  the input: the stored line item carries an \<^verbatim>\<open>_id\<close> of its own. An order made of the
  allow-listed field \<open>totalCost\<close> alone, holding an object, is answered 500: no
  identifier is returned to read with. And an order whose \<open>totalCost\<close> is \<^verbatim>\<open>1e400\<close>,
  which is parsed as \<^verbatim>\<open>Infinity\<close>, is created (201) and read back with \<open>totalCost\<close>
  \<^verbatim>\<open>null\<close>.
\<close>

theorem roundtrip_is_not_equality_counterexample:
  "status (snd (handle (mem sample_env) empty_store (Create CartE sample_cart_body))) = 201 \<and>
   status (snd (handle (mem sample_env)
                  (fst (handle (mem sample_env) empty_store (Create CartE sample_cart_body)))
                  (GetById CartE ''507f1f77bcf86cd799439011''))) = 200 \<and>
   property (body (snd (handle (mem sample_env)
                  (fst (handle (mem sample_env) empty_store (Create CartE sample_cart_body)))
                  (GetById CartE ''507f1f77bcf86cd799439011'')))) ''items''
     \<noteq> property sample_cart_body ''items'' \<and>
   status (snd (handle (mem sample_env) empty_store
                  (Create OrderE (JObj [(''totalCost'', JObj [(''amount'', JNum 40)])])))) = 500 \<and>
   status (snd (handle (mem sample_env) empty_store
                  (Create OrderE (JObj [(''totalCost'', JInfinity False)])))) = 201 \<and>
   property (body (snd (handle (mem sample_env)
                  (fst (handle (mem sample_env) empty_store
                          (Create OrderE (JObj [(''totalCost'', JInfinity False)]))))
                  (GetById OrderE ''507f1f77bcf86cd799439011'')))) ''totalCost'' = JNull"
proof -
  have "status (snd (handle (mem sample_env) empty_store
                  (Create OrderE (JObj [(''totalCost'', JObj [(''amount'', JNum 40)])])))) = 500"
    by (simp add: post_order_def models mem_new_document_def cast_document_def
          orderSchema_def gather_def minimize_def mem_save_def error_response_def)
  moreover have "parse_object_id ''507f1f77bcf86cd799439011'' = Some ''507f1f77bcf86cd799439011''"
    using sample_id by (simp add: is_object_id_def)
  ultimately show ?thesis
    unfolding sample_cart_create huge_order_create fst_conv snd_conv
    by (simp add: get_cart_def get_order_def models mem_findById_def sample_env_def
          document_json_def sample_cart_body_def)
qed




text \<open>
  C3. A read whose lookup finds no document answers 404 with a \<open>message\<close> field and
  leaves the store as it is, whatever the storage layer. On the document store this
  is the case of a well-formed identifier that no document of the collection has,
  when the store is reachable. The witness is the scenario of the specification:
  \<^verbatim>\<open>GET /cart/000000000000000000000000\<close> on a store without that identifier.
\<close>

theorem get_absent_is_404:
  "(findById (entity_model M e) db i = Inr None \<longrightarrow>
      handle M db (GetById e i) =
        (db, \<lparr>status = 404, body = JObj [(''message'', JStr (not_found_message e))]\<rparr>)) \<and>
   (parse_object_id i = Some oid \<and> st (entity_name e) oid = None \<and> fault env = None \<longrightarrow>
      handle (mem env) st (GetById e i) =
        (st, \<lparr>status = 404, body = JObj [(''message'', JStr (not_found_message e))]\<rparr>))"
  by (simp add: handle_GetById entity_model_eq mem_findById_def)

theorem get_absent_is_404_witness:
  "handle (mem sample_env) empty_store (GetById CartE ''000000000000000000000000'') =
     (empty_store, \<lparr>status = 404, body = JObj [(''message'', JStr ''Cart not found'')]\<rparr>)"
proof -
  have "parse_object_id ''000000000000000000000000'' = Some ''000000000000000000000000''"
    by (simp add: parse_object_id_def is_hex_def lower_hex_def)
  moreover have "empty_store (entity_name CartE) ''000000000000000000000000'' = None"
    by (simp add: empty_store_def)
  moreover have "fault sample_env = None"
    by (simp add: sample_env_def)
  ultimately show ?thesis
    using get_absent_is_404
      [of "mem sample_env" CartE empty_store "''000000000000000000000000''"
          "''000000000000000000000000''" empty_store sample_env]
    by simp
qed

text \<open>
  C4. A read whose lookup raises answers 500 with the error's message in the \<open>error\<close>
  field and leaves the store as it is, whatever the storage layer: the error is
  caught. On the document store a malformed identifier, one that cannot be cast to
  an ObjectId, makes the lookup raise, whether the store is reachable or not. The
  handler is a total function: every outcome of the lookup has a response.
\<close>

theorem get_lookup_error_is_500:
  "(findById (entity_model M e) db i = Inl msg \<longrightarrow>
      handle M db (GetById e i) =
        (db, \<lparr>status = 500, body = JObj [(''error'', JStr msg)]\<rparr>)) \<and>
   (parse_object_id i = None \<longrightarrow>
      handle (mem env) st (GetById e i) =
        (st, \<lparr>status = 500,
              body = JObj [(''error'',
                            JStr (message env (ObjectIdCastError (entity_name e) i)))]\<rparr>))"
  by (simp add: handle_GetById entity_model_eq mem_findById_def error_response_def)

theorem get_lookup_error_is_500_witness:
  "handle (mem sample_env) empty_store (GetById OrderE ''abc'') =
     (empty_store, \<lparr>status = 500, body = JObj [(''error'', JStr ''Cast to ObjectId failed'')]\<rparr>)"
proof -
  have "parse_object_id ''abc'' = None"
    by (simp add: parse_object_id_def)
  then show ?thesis
    using get_lookup_error_is_500 [of "mem sample_env" OrderE empty_store "''abc''" _ sample_env empty_store]
    by (simp add: sample_env_def)
qed

text \<open>
  C5. \<^verbatim>\<open>GET /health\<close> answers 200 with the fixed payload, whatever the storage layer
  \<open>M\<close> and the state \<open>db\<close> of the store are, and leaves the store as it is.
\<close>

theorem health_is_static:
  "handle M db Health =
     (db, \<lparr>status = 200,
           body = JObj [(''status'', JStr ''OK''), (''service'', JStr ''vegetable-app'')]\<rparr>)"
  by (simp add: get_health_def)

text \<open>
  C7. When the write of a create operation is rejected with message \<open>msg\<close>, the
  handler answers 500 with \<open>msg\<close> itself in the \<open>error\<close> field. The handler makes this
  one write and no other, so with a storage layer whose rejected write leaves the
  store as it was (\<open>atomic_write\<close>), the store after the request is the store before.
\<close>

theorem failed_write_is_500_and_leaves_store:
  assumes "atomic_write M" and "\<not> nullish b"
    and "new_document (entity_model M e) (allowed_fields e b) = Inr d"
    and "save (entity_model M e) db d = (Inl msg, db')"
  shows "handle M db (Create e b) =
           (db, \<lparr>status = 500, body = JObj [(''error'', JStr msg)]\<rparr>)"
proof -
  have "db' = db"
    using assms(1,4) unfolding atomic_write_def entity_model_eq by blast
  with assms(2,3,4) show ?thesis
    by (simp add: handle_Create destructure_ok error_response_def)
qed

theorem failed_write_is_500_and_leaves_store_witness:
  "handle (mem offline_env) empty_store (Create CartE (JObj [(''totalCartCost'', JNum 5)])) =
     (empty_store, \<lparr>status = 500, body = JObj [(''error'', JStr ''connection timed out'')]\<rparr>)"
proof -
  let ?b = "JObj [(''totalCartCost'', JNum 5)]"
  let ?d = "\<lparr>doc_id = ''507f1f77bcf86cd799439011'',
             doc_fields = [(''items'', JArr []), (''totalCartCost'', JNum 5)],
             cast_errors = [], version = None\<rparr>"
  have n: "new_document (entity_model (mem offline_env) CartE) (allowed_fields CartE ?b) = Inr ?d"
    by (simp add: models mem_new_document_def cast_document_def allowed_fields_def
          cartSchema_def gather_def minimize_def offline_env_def sample_env_def)
  have s: "save (entity_model (mem offline_env) CartE) empty_store ?d =
             (Inl ''connection timed out'', empty_store)"
    by (simp add: models mem_save_def offline_env_def)
  have b: "\<not> nullish ?b"
    by simp
  from failed_write_is_500_and_leaves_store [OF atomic_write_mem b n s] show ?thesis
    by simp
qed


lemma empty_checkout_doc:
  "mem_new_document env checkoutSchema (allowed_fields CheckoutE (JObj [])) =
     Inr \<lparr>doc_id = new_id env, doc_fields = [(''cart'', JArr [])],
          cast_errors = [], version = None\<rparr>"
  by (simp add: mem_new_document_def cast_document_def allowed_fields_def
        checkoutSchema_def gather_def minimize_def)

text \<open>
  C6. \<^verbatim>\<open>POST /checkout\<close> with an empty body (\<^verbatim>\<open>req.body\<close> is \<^verbatim>\<open>{}\<close>) is not validated:
  when the store is reachable and the generated identifier is new, the answer is
  201 with that identifier as \<open>checkoutId\<close>, and the document stored under it has no
  \<open>cartTotal\<close>.
\<close>

theorem empty_checkout_is_created:
  assumes "fault env = None" and "st ''Checkout'' (new_id env) = None"
  shows "\<exists>st' d.
           handle (mem env) st (Create CheckoutE (JObj [])) =
             (st', \<lparr>status = 201,
                    body = JObj [(''message'', JStr ''Checkout successful!''),
                                 (''checkoutId'', JStr (new_id env))]\<rparr>) \<and>
           st' ''Checkout'' (new_id env) = Some d \<and>
           map_of (doc_fields d) ''cartTotal'' = None \<and>
           property (document_json d) ''cartTotal'' = JUndefined"
  using assms
  by (simp add: handle_Create models empty_checkout_doc mem_save_def document_json_def)

theorem empty_checkout_is_created_witness:
  "\<exists>st' d.
     handle (mem sample_env) empty_store (Create CheckoutE (JObj [])) =
       (st', \<lparr>status = 201,
              body = JObj [(''message'', JStr ''Checkout successful!''),
                           (''checkoutId'', JStr ''507f1f77bcf86cd799439011'')]\<rparr>) \<and>
     st' ''Checkout'' ''507f1f77bcf86cd799439011'' = Some d \<and>
     map_of (doc_fields d) ''cartTotal'' = None \<and>
     property (document_json d) ''cartTotal'' = JUndefined"
proof -
  have "fault sample_env = None" "empty_store ''Checkout'' (new_id sample_env) = None"
    by (simp_all add: sample_env_def empty_store_def)
  from empty_checkout_is_created [where env = sample_env and st = empty_store, OF this] show ?thesis
    by (simp add: sample_env_def)
qed


lemma gather_errors: "fst (gather rs) = concat (map (\<lambda>r. fst (snd r)) rs)"
  by (simp add: gather_def)

lemma cast_document_errors:
  "fst (cast_document env sch (JObj kvs)) =
     concat (map (\<lambda>f. fst (cast_value env (snd f) [Key (fst f)] (property (JObj kvs) (fst f)))) sch)"
proof -
  have "fst (cast_document env sch (JObj kvs)) = fst (cast_value env (Nested sch) [] (JObj kvs))"
    by (simp add: cast_document_def split: prod.splits json.splits)
  also have "\<dots> = fst (gather (map (\<lambda>f. (fst f, cast_value env (snd f) ([] @ [Key (fst f)])
                                      (property (JObj kvs) (fst f)))) sch))"
    by (simp add: Let_def)
  finally show ?thesis
    by (simp add: gather_errors comp_def)
qed

text \<open>
  C10. Creation does not accept every value: an order whose \<open>totalCost\<close> is an object
  (or an array) cannot be cast to the number the schema declares, so the save is
  rejected and the handler answers 500, not 201; nothing is stored. The value is
  neither coerced nor dropped.
\<close>

theorem order_with_object_cost_is_rejected:
  assumes "property b ''totalCost'' = JObj kvs \<or> property b ''totalCost'' = JArr xs"
  shows "\<exists>errs.
           [Key ''totalCost''] \<in> set errs \<and>
           handle (mem env) st (Create OrderE b) =
             (st, \<lparr>status = 500,
                   body = JObj [(''error'', JStr (message env (ValidationError ''Order'' errs)))]\<rparr>)"
proof -
  from assms have b: "\<not> nullish b"
    by (cases b) auto
  obtain errs fields where c: "cast_document env orderSchema (allowed_fields OrderE b) = (errs, fields)"
    by (cases "cast_document env orderSchema (allowed_fields OrderE b)")
  have "[Key ''totalCost''] \<in> set (fst (cast_document env orderSchema (allowed_fields OrderE b)))"
    unfolding allowed_fields_def cast_document_errors
    using assms by (auto simp: orderSchema_def)
  with c have e: "[Key ''totalCost''] \<in> set errs"
    by simp
  then have "errs \<noteq> []"
    by auto
  with b c e show ?thesis
    by (auto simp: handle_Create destructure_ok models mem_new_document_def mem_save_def
          error_response_def)
qed

theorem order_with_object_cost_is_rejected_witness:
  "\<exists>errs.
     [Key ''totalCost''] \<in> set errs \<and>
     handle (mem sample_env) empty_store
       (Create OrderE (JObj [(''name'', JStr ''A''), (''totalCost'', JObj [(''amount'', JNum 40)])])) =
       (empty_store,
        \<lparr>status = 500, body = JObj [(''error'', JStr ''Order validation failed'')]\<rparr>)"
proof -
  have "property (JObj [(''name'', JStr ''A''), (''totalCost'', JObj [(''amount'', JNum 40)])])
          ''totalCost'' = JObj [(''amount'', JNum 40)] \<or>
        property (JObj [(''name'', JStr ''A''), (''totalCost'', JObj [(''amount'', JNum 40)])])
          ''totalCost'' = JArr []"
    by simp
  from order_with_object_cost_is_rejected [where env = sample_env and st = empty_store, OF this]
  show ?thesis
    by (simp add: sample_env_def)
qed

lemma get_keeps_store: "fst (handle M db (GetById e i)) = db"
  by (simp add: handle_GetById split: sum.splits option.splits)

lemma mem_create_store:
  assumes "handle (mem env) st (Create e b) = (st', r)"
  shows "st' = st \<or> (\<exists>d res. mem_save env (entity_name e) st d = (res, st'))"
  using assms
  by (auto simp: handle_Create entity_model_eq split: sum.splits prod.splits)

lemma mem_create_local:
  assumes "handle (mem env) st (Create e b) = (st', r)" and "name \<noteq> entity_name e"
  shows "st' name = st name"
  using mem_create_store [OF assms(1)] assms(2) by (auto dest: mem_save_local)

lemma mem_handle_keeps:
  assumes "handle (mem env) st req = (st', r)" and "st name j = Some d"
  shows "st' name j = Some d"
proof (cases req)
  case Health
  with assms show ?thesis by simp
next
  case (Create e b)
  with assms(1) have "st' = st \<or> (\<exists>x res. mem_save env (entity_name e) st x = (res, st'))"
    by (simp only: mem_create_store)
  with assms(2) show ?thesis
    by (auto dest: mem_save_keeps)
next
  case (GetById e i)
  with assms(1) get_keeps_store [of "mem env" st e i] have "st' = st"
    by simp
  with assms(2) show ?thesis by simp
qed

text \<open>
  C8. Create once, read many. A read, and the health probe, leave the store of any
  storage layer as it is. On the document store, a create operation changes no
  collection but that of its own entity, and after any request every document that
  was stored is still stored, unchanged: nothing is updated and nothing is deleted.
\<close>

theorem store_is_create_once_read_many:
  "fst (handle M db (GetById e i)) = db \<and>
   fst (handle M db Health) = db \<and>
   (\<forall>name. name \<noteq> entity_name e' \<longrightarrow>
      fst (handle (mem env) st (Create e' b)) name = st name) \<and>
   (\<forall>name j d. st name j = Some d \<longrightarrow>
      fst (handle (mem env) st req) name j = Some d)"
proof (intro conjI allI impI)
  show "fst (handle M db (GetById e i)) = db"
    by (rule get_keeps_store)
  show "fst (handle M db Health) = db"
    by simp
  show "fst (handle (mem env) st (Create e' b)) name = st name"
    if "name \<noteq> entity_name e'" for name
    using that mem_create_local [of env st e' b "fst (handle (mem env) st (Create e' b))"
        "snd (handle (mem env) st (Create e' b))" name]
    by simp
  show "fst (handle (mem env) st req) name j = Some d" if "st name j = Some d" for name j d
    using that mem_handle_keeps [of env st req "fst (handle (mem env) st req)"
        "snd (handle (mem env) st req)" name j d]
    by simp
qed

theorem store_is_create_once_read_many_witness:
  "fst (handle (mem sample_env) one_cart_store (GetById CartE ''507f191e810c19729de860ea'')) =
     one_cart_store \<and>
   fst (handle (mem sample_env) one_cart_store (Create OrderE sample_order)) ''Cart'' =
     one_cart_store ''Cart'' \<and>
   fst (handle (mem sample_env) one_cart_store (Create OrderE sample_order))
     ''Cart'' ''507f191e810c19729de860ea'' = Some sample_cart"
proof -
  have "''Cart'' \<noteq> entity_name OrderE"
    by simp
  moreover have "one_cart_store ''Cart'' ''507f191e810c19729de860ea'' = Some sample_cart"
    by (simp add: one_cart_store_def)
  ultimately show ?thesis
    using store_is_create_once_read_many
      [of "mem sample_env" one_cart_store CartE "''507f191e810c19729de860ea''"
          OrderE sample_env one_cart_store sample_order "Create OrderE sample_order"]
    by simp
qed

text \<open>
  C9. Startup makes one connection attempt. When it fails, the error is logged and
  the process exits with code 1: there is no second attempt. When it succeeds, the
  success is logged and the process goes on; it does not exit.
\<close>

theorem startup_connects_once:
  "length (filter is_connect (startup connect process_env)) = 1 \<and>
   (connect (MONGO_URI process_env) = None \<longrightarrow>
      (\<exists>line. startup connect process_env =
                 [MongooseConnect (MONGO_URI process_env), ConsoleLog line])) \<and>
   (connect (MONGO_URI process_env) \<noteq> None \<longrightarrow>
      (\<exists>line. startup connect process_env =
                 [MongooseConnect (MONGO_URI process_env), ConsoleError line, ProcessExit 1]))"
  by (auto simp: startup_def connectToDatabase_def split: option.splits)

theorem startup_connects_once_witness:
  "startup (\<lambda>uri. Some ''ECONNREFUSED'') Map.empty =
     [MongooseConnect ''mongodb://vegetable-app-mongodb-svc:27017/vegetable_order_app'',
      ConsoleError ([CHR 0xE2, CHR 0x9D, CHR 0x8C] @ '' MongoDB connection error: ECONNREFUSED''),
      ProcessExit 1] \<and>
   startup (\<lambda>uri. None) [''MONGO_URL'' \<mapsto> ''mongodb://localhost/test''] =
     [MongooseConnect ''mongodb://localhost/test'',
      ConsoleLog ([CHR 0xE2, CHR 0x9C, CHR 0x85] @ '' MongoDB connected successfully'')]"
  using startup_connects_once [of "\<lambda>uri. Some ''ECONNREFUSED''" Map.empty]
    startup_connects_once [of "\<lambda>uri. None" "[''MONGO_URL'' \<mapsto> ''mongodb://localhost/test'']"]
  by (simp add: startup_def connectToDatabase_def MONGO_URI_def)

end
